theory Spec2Isabelle
  imports Complex_Main
begin

section \<open>JavaScript values and the host environment\<close>

text \<open>
  Scalar values as they reach the dashboard from a parsed JSON body, together with the two
  values that only arise at run time: \<open>Undefined\<close> (reading a property that the object does
  not have) and \<open>NaN\<close> (arithmetic on \<open>undefined\<close>). Numbers are rationals: the claims
  examined here depend on the comparisons \<open>=== 0\<close> and \<open>>\<close>, not on rounding.
\<close>

datatype jsval = Undefined | Null | Bool bool | Num rat | NaN | Str string

text \<open>
  What the browser supplies and the source does not define: number formatting
  (\<open>toLocaleString\<close>, \<open>toFixed\<close>, template interpolation of a number), the conversion of a
  string to a number, the successive results of \<open>Math.random()\<close> (the \<open>n\<close>-th call
  returns \<open>random h n\<close>), and the message of the \<open>TypeError\<close> raised by reading a property
  of \<open>undefined\<close>. A finite number is passed as \<open>Some r\<close>, \<open>NaN\<close> as \<open>None\<close>.
\<close>

record host =
  toLocaleString :: "rat option \<Rightarrow> string"
  toFixed :: "rat option \<Rightarrow> nat \<Rightarrow> string"
  numberToString :: "rat option \<Rightarrow> string"
  stringToNumber :: "string \<Rightarrow> rat option"
  random :: "nat \<Rightarrow> rat"
  typeErrorMessage :: "string \<Rightarrow> string"

text \<open>
  The text typed into the symbol input is a sequence of UTF-16 code units, each a number,
  so that every character \<open>String.prototype.trim\<close> strips can occur in it. Wherever the
  symbol goes from there (the status line, the request) it is carried as it is.
\<close>

type_synonym ustring = "nat list"

text \<open>The code units of a text written in ASCII.\<close>

definition ascii :: "string \<Rightarrow> ustring" where
  "ascii s = map of_char s"

text \<open>Truthiness, as \<open>!value\<close>, \<open>a || b\<close> and \<open>if (value)\<close> use it.\<close>

fun truthy :: "jsval \<Rightarrow> bool" where
  "truthy Undefined = False"
| "truthy Null = False"
| "truthy (Bool b) = b"
| "truthy (Num r) = (r \<noteq> 0)"
| "truthy NaN = False"
| "truthy (Str s) = (s \<noteq> [])"

text \<open>\<open>ToNumber\<close>: \<open>None\<close> is \<open>NaN\<close>.\<close>

fun toNumber :: "host \<Rightarrow> jsval \<Rightarrow> rat option" where
  "toNumber h Undefined = None"
| "toNumber h Null = Some 0"
| "toNumber h (Bool b) = Some (if b then 1 else 0)"
| "toNumber h (Num r) = Some r"
| "toNumber h NaN = None"
| "toNumber h (Str s) = stringToNumber h s"

definition ofNumber :: "rat option \<Rightarrow> jsval" where
  "ofNumber n = (case n of None \<Rightarrow> NaN | Some r \<Rightarrow> Num r)"

text \<open>\<open>a * k\<close> and \<open>a / k\<close> for a numeric literal \<open>k\<close>.\<close>

definition times :: "host \<Rightarrow> jsval \<Rightarrow> rat \<Rightarrow> jsval" where
  "times h a k = ofNumber (map_option (\<lambda>r. r * k) (toNumber h a))"

definition divide_by :: "host \<Rightarrow> jsval \<Rightarrow> rat \<Rightarrow> jsval" where
  "divide_by h a k = ofNumber (map_option (\<lambda>r. r / k) (toNumber h a))"

text \<open>\<open>a > k\<close>: false when \<open>a\<close> converts to \<open>NaN\<close>.\<close>

definition greater :: "host \<Rightarrow> jsval \<Rightarrow> rat \<Rightarrow> bool" where
  "greater h a k = (case toNumber h a of None \<Rightarrow> False | Some r \<Rightarrow> r > k)"

text \<open>Template interpolation \<open>${value}\<close>.\<close>

fun toString :: "host \<Rightarrow> jsval \<Rightarrow> string" where
  "toString h Undefined = ''undefined''"
| "toString h Null = ''null''"
| "toString h (Bool b) = (if b then ''true'' else ''false'')"
| "toString h (Num r) = numberToString h (Some r)"
| "toString h NaN = numberToString h None"
| "toString h (Str s) = s"

text \<open>\<open>value.toLocaleString()\<close> on a value that is neither \<open>null\<close> nor \<open>undefined\<close>.\<close>

fun localeString :: "host \<Rightarrow> jsval \<Rightarrow> string" where
  "localeString h (Num r) = toLocaleString h (Some r)"
| "localeString h NaN = toLocaleString h None"
| "localeString h v = toString h v"

text \<open>\<open>typeof value === 'number'\<close>.\<close>

fun is_number :: "jsval \<Rightarrow> bool" where
  "is_number (Num r) = True"
| "is_number NaN = True"
| "is_number v = False"

section \<open>The stock-info panel (enhanced\_app.js, updateStockInfo)\<close>

record stock_info =
  si_error :: jsval
  si_name :: jsval
  si_sector :: jsval
  si_market_cap :: jsval
  si_pe_ratio :: jsval
  si_dividend_yield :: jsval
  si_beta :: jsval
  si_price :: jsval
  si_exchange :: jsval

text \<open>
  The fixed Chinese texts of the page are an enumeration, one constructor per literal of
  the source (the line is that of enhanced\_app.js unless app.js is named).
\<close>

datatype msg =
    LoadingStockInfo      \<comment> \<open>l.100, "loading stock information..."\<close>
  | LoadingTechnical      \<comment> \<open>l.101, "computing technical indicators..."\<close>
  | LoadingSignals        \<comment> \<open>l.102, "generating trading signals..."\<close>
  | LoadingAnalysis       \<comment> \<open>l.103, "AI analysing..."\<close>
  | FailedData            \<comment> \<open>l.121, "data loading failed"\<close>
  | FailedTechnical       \<comment> \<open>l.122, "technical analysis failed"\<close>
  | FailedSignals         \<comment> \<open>l.123, "signal generation failed"\<close>
  | FailedAnalysis        \<comment> \<open>l.124, "AI analysis failed"\<close>
  | StockInfoUnavailable  \<comment> \<open>l.156, "stock information unavailable"\<close>
  | NoTechnicalData       \<comment> \<open>l.216, "no technical analysis data yet"\<close>
  | NoSignals             \<comment> \<open>l.223, "no trading signals yet"\<close>
  | NoAnalysisData        \<comment> \<open>l.268, "no analysis data yet"\<close>

datatype info_label =
    CompanyName | Sector | MarketCap | PeRatio | DividendYield | Beta | CurrentPrice | Exchange

text \<open>
  \<open>formatValue(value, suffix = '')\<close>, ll.160-166. The last branch returns the value
  itself, which the template then interpolates.
\<close>

definition formatValue :: "host \<Rightarrow> jsval \<Rightarrow> string \<Rightarrow> string" where
  "formatValue h v suffix =
     (if v = Null \<or> v = Undefined \<or> v = Num 0 then ''N/A''
      else if is_number v then localeString h v @ suffix
      else toString h v)"

text \<open>\<open>formatMarketCap(value)\<close>, ll.168-174.\<close>

definition formatMarketCap :: "host \<Rightarrow> jsval \<Rightarrow> string" where
  "formatMarketCap h v =
     (if \<not> truthy v \<or> v = Num 0 then ''N/A''
      else if greater h v (10 ^ 12) then ''$'' @ toFixed h (toNumber h (divide_by h v (10 ^ 12))) 2 @ ''T''
      else if greater h v (10 ^ 9) then ''$'' @ toFixed h (toNumber h (divide_by h v (10 ^ 9))) 2 @ ''B''
      else if greater h v (10 ^ 6) then ''$'' @ toFixed h (toNumber h (divide_by h v (10 ^ 6))) 2 @ ''M''
      else ''$'' @ localeString h v)"

text \<open>\<open>${x || 'N/A'}\<close>.\<close>

definition or_na :: "host \<Rightarrow> jsval \<Rightarrow> string" where
  "or_na h v = (if truthy v then toString h v else ''N/A'')"

text \<open>The eight \<open>info-item\<close> rows of ll.176-209: the label and the text of \<open>info-value\<close>.\<close>

definition info_items :: "host \<Rightarrow> stock_info \<Rightarrow> (info_label \<times> string) list" where
  "info_items h si =
     [(CompanyName, or_na h (si_name si)),
      (Sector, or_na h (si_sector si)),
      (MarketCap, formatMarketCap h (si_market_cap si)),
      (PeRatio, formatValue h (si_pe_ratio si) ''''),
      (DividendYield, formatValue h (times h (si_dividend_yield si) 100) ''%''),
      (Beta, formatValue h (si_beta si) ''''),
      (CurrentPrice, ''$'' @ formatValue h (si_price si) ''''),
      (Exchange, or_na h (si_exchange si))]"

section \<open>The response of /api/stock\_data and the view state (enhanced\_app.js)\<close>

record point =
  p_date :: jsval
  p_close :: jsval
  p_volume :: jsval

record signals =
  sg_overall_signal :: jsval
  sg_signal_strength :: jsval
  sg_signals :: "jsval list option"

record technical_indicators =
  ti_summary :: jsval
  ti_signals :: "signals option"

text \<open>
  The parsed body. An object or array field that is missing (or \<open>null\<close>) is \<open>None\<close>; a
  missing scalar is \<open>Undefined\<close>. An element of \<open>rsi\<close> stands for its \<open>value\<close> property,
  the only one the source reads. The source never reads a MACD field of the body.
\<close>

record stock_data =
  d_error :: jsval
  d_symbol :: jsval
  d_period :: jsval
  d_data :: "point list option"
  d_rsi :: "jsval list option"
  d_stock_info :: "stock_info option"
  d_technical_indicators :: "technical_indicators option"
  d_analysis :: jsval

text \<open>A thrown value: its \<open>name\<close> and its \<open>message\<close>.\<close>

datatype exn = Exn (exn_name: string) (exn_message: string)

text \<open>The \<open>TypeError\<close> of reading the property \<open>prop\<close> of \<open>undefined\<close>.\<close>

definition typeError :: "host \<Rightarrow> string \<Rightarrow> exn" where
  "typeError h prop = Exn ''TypeError'' (typeErrorMessage h prop)"

text \<open>
  How the two awaits of a fetch end: \<open>fetch\<close> rejects, \<open>response.json()\<close> rejects (the
  status is known by then), or both resolve with a status and a parsed body.
\<close>

datatype 'b outcome = FetchRejected exn | JsonRejected nat exn | Responded nat 'b

text \<open>\<open>response.ok\<close>.\<close>

definition ok :: "nat \<Rightarrow> bool" where
  "ok status = (200 \<le> status \<and> status \<le> 299)"

datatype error_msg =
    BodyError string  \<comment> \<open>\<open>data.error\<close>\<close>
  | HttpError nat     \<comment> \<open>l.117, "HTTP error: <status>"\<close>

datatype status_text =
    StatusUnset
  | Analysing ustring            \<comment> \<open>l.98, "analysing <symbol>..."\<close>
  | StatusError error_msg        \<comment> \<open>l.119, cross mark, "error: <errorMsg>"\<close>
  | StatusSuccess ustring nat    \<comment> \<open>l.133, check mark, "got <symbol> data (<n> records)"\<close>
  | StatusException string       \<comment> \<open>l.148, cross mark, "request exception: <message>"\<close>

datatype pre_text = Fixed msg | Data string

datatype icon = ArrowUp | ArrowDown | ArrowFlat

record signal_head =
  sh_class :: string
  sh_icon :: icon
  sh_overall :: string
  sh_strength :: string

text \<open>What a panel's \<open>innerHTML\<close> holds.\<close>

datatype html =
    Markup                                    \<comment> \<open>the page's own markup, before any script wrote\<close>
  | LoadingDiv msg                            \<comment> \<open>\<open><div class="loading">msg</div>\<close>\<close>
  | Pre pre_text                              \<comment> \<open>\<open><pre>text</pre>\<close>\<close>
  | InfoItems "(info_label \<times> string) list"
  | SignalItems signal_head "string list"

datatype chart_text =
    NoText                     \<comment> \<open>the empty string\<close>
  | RsiLabel                   \<comment> \<open>'RSI'\<close>
  | RsiTitle                   \<comment> \<open>l.355, "RSI relative strength index"\<close>
  | MacdLabel                  \<comment> \<open>'MACD'\<close>
  | MacdTitle                  \<comment> \<open>l.370, "MACD indicator"\<close>
  | VolumeText                 \<comment> \<open>ll.376, 383, 384, "volume"\<close>
  | ClosePriceLabel string     \<comment> \<open>l.287, "<symbol> closing price"\<close>
  | PriceTrendTitle string string  \<comment> \<open>l.302, "<symbol> price trend (<period>)"\<close>
  | TimeAxis                   \<comment> \<open>"time"\<close>
  | PriceAxis                  \<comment> \<open>"price ($)"\<close>

record dataset =
  ds_label :: chart_text
  ds_data :: "jsval list"
  ds_borderColor :: string
  ds_backgroundColor :: string
  ds_borderWidth :: nat
  ds_fill :: bool
  ds_tension :: "rat option"

text \<open>
  The configuration handed to \<open>new Chart\<close>; the options that are the same constants in
  every call (\<open>type\<close>, \<open>responsive\<close>, \<open>maintainAspectRatio\<close>, \<open>legend\<close>, \<open>interaction\<close>) are
  left out.
\<close>

record chart_config =
  cc_labels :: "jsval list"
  cc_datasets :: "dataset list"
  cc_title :: chart_text
  cc_x_title :: chart_text
  cc_y_title :: chart_text

record chart =
  chart_id :: nat
  chart_canvas :: string
  chart_config :: chart_config

datatype request =
    StockDataRequest ustring string string string \<comment> \<open>symbol, period, interval, analysis\_type\<close>
  | StockRequest ustring                          \<comment> \<open>app.js: symbol\<close>

text \<open>
  The globals of enhanced\_app.js (\<open>priceChart\<close>, \<open>indicatorChart\<close>, \<open>currentIndicator\<close>,
  \<open>window.currentStockData\<close>), the elements it writes, and what lies behind them: the
  chart instances that were created and not destroyed, the number of \<open>Math.random()\<close>
  calls made so far, and the requests sent.
\<close>

record view =
  statusClass :: string
  statusText :: status_text
  stockInfoBox :: html
  technicalSummary :: html
  tradingSignals :: html
  analysisBox :: html
  currentStockData :: "stock_data option"
  currentIndicator :: string
  activeTab :: "string option"
  priceChart :: "chart option"
  indicatorChart :: "chart option"
  liveCharts :: "chart list"
  nextChartId :: nat
  randomCalls :: nat
  requests :: "request list"

section \<open>The text panels\<close>

text \<open>\<open>updateStockInfo(stockInfo)\<close>, ll.152-212.\<close>

definition updateStockInfo :: "host \<Rightarrow> stock_info option \<Rightarrow> view \<Rightarrow> view" where
  "updateStockInfo h stockInfo v =
     (case stockInfo of
        None \<Rightarrow> v\<lparr>stockInfoBox := LoadingDiv StockInfoUnavailable\<rparr>
      | Some si \<Rightarrow>
          if truthy (si_error si) then v\<lparr>stockInfoBox := LoadingDiv StockInfoUnavailable\<rparr>
          else v\<lparr>stockInfoBox := InfoItems (info_items h si)\<rparr>)"

text \<open>\<open>updateTechnicalSummary(summary)\<close>, ll.214-217.\<close>

definition updateTechnicalSummary :: "host \<Rightarrow> jsval \<Rightarrow> view \<Rightarrow> view" where
  "updateTechnicalSummary h summary v =
     v\<lparr>technicalSummary :=
          Pre (if truthy summary then Data (toString h summary) else Fixed NoTechnicalData)\<rparr>"

definition getSignalClass :: "jsval \<Rightarrow> string" where
  "getSignalClass signal =
     (if signal = Str ''bullish'' then ''signal-bullish''
      else if signal = Str ''bearish'' then ''signal-bearish''
      else ''signal-neutral'')"

definition getSignalIcon :: "jsval \<Rightarrow> icon" where
  "getSignalIcon signal =
     (if signal = Str ''bullish'' then ArrowUp
      else if signal = Str ''bearish'' then ArrowDown
      else ArrowFlat)"

text \<open>\<open>updateTradingSignals(signals)\<close>, ll.219-264.\<close>

definition updateTradingSignals :: "host \<Rightarrow> signals option \<Rightarrow> view \<Rightarrow> view" where
  "updateTradingSignals h sigs v =
     (case sigs of
        None \<Rightarrow> v\<lparr>tradingSignals := LoadingDiv NoSignals\<rparr>
      | Some s \<Rightarrow>
          (case sg_signals s of
             None \<Rightarrow> v\<lparr>tradingSignals := LoadingDiv NoSignals\<rparr>
           | Some items \<Rightarrow>
               v\<lparr>tradingSignals :=
                    SignalItems
                      \<lparr>sh_class = getSignalClass (sg_overall_signal s),
                       sh_icon = getSignalIcon (sg_overall_signal s),
                       sh_overall = toString h (sg_overall_signal s),
                       sh_strength =
                         toFixed h (toNumber h (times h (sg_signal_strength s) 100)) 1 @ ''%''\<rparr>
                      (map (toString h) items)\<rparr>))"

text \<open>\<open>updateAnalysis(analysis)\<close>, ll.266-269.\<close>

definition updateAnalysis :: "host \<Rightarrow> jsval \<Rightarrow> view \<Rightarrow> view" where
  "updateAnalysis h analysis v =
     v\<lparr>analysisBox :=
          Pre (if truthy analysis then Data (toString h analysis) else Fixed NoAnalysisData)\<rparr>"

section \<open>The charts\<close>

text \<open>\<open>chart.destroy()\<close> takes the instance out of the live ones.\<close>

definition destroy :: "chart \<Rightarrow> view \<Rightarrow> view" where
  "destroy c v = v\<lparr>liveCharts := filter (\<lambda>d. chart_id d \<noteq> chart_id c) (liveCharts v)\<rparr>"

text \<open>\<open>new Chart(ctx, config)\<close> on the canvas: a fresh instance, live from now on.\<close>

definition newChart :: "string \<Rightarrow> chart_config \<Rightarrow> view \<Rightarrow> chart \<times> view" where
  "newChart cv cfg v =
     (let c = \<lparr>chart_id = nextChartId v, chart_canvas = cv, chart_config = cfg\<rparr>
      in (c, v\<lparr>liveCharts := liveCharts v @ [c], nextChartId := Suc (nextChartId v)\<rparr>))"

text \<open>
  \<open>renderPriceChart(data)\<close>, ll.271-330. The result carries the exception, if one was
  thrown, and the state as it was left: the old chart is destroyed before \<open>data.data.map\<close>
  can throw.
\<close>

definition renderPriceChart :: "host \<Rightarrow> stock_data \<Rightarrow> view \<Rightarrow> exn option \<times> view" where
  "renderPriceChart h data v =
     (let v1 = (case priceChart v of None \<Rightarrow> v | Some c \<Rightarrow> destroy c v) in
      case d_data data of
        None \<Rightarrow> (Some (typeError h ''map''), v1)
      | Some pts \<Rightarrow>
          (let (c, v2) =
                 newChart ''priceChart''
                   \<lparr>cc_labels = map p_date pts,
                    cc_datasets =
                      [\<lparr>ds_label = ClosePriceLabel (toString h (d_symbol data)),
                        ds_data = map p_close pts,
                        ds_borderColor = ''#2a5298'',
                        ds_backgroundColor = ''rgba(42, 82, 152, 0.1)'',
                        ds_borderWidth = 2,
                        ds_fill = True,
                        ds_tension = Some (1 / 10)\<rparr>],
                    cc_title =
                      PriceTrendTitle (toString h (d_symbol data)) (toString h (d_period data)),
                    cc_x_title = TimeAxis,
                    cc_y_title = PriceAxis\<rparr> v1
           in (None, v2\<lparr>priceChart := Some c\<rparr>)))"

text \<open>
  The \<open>switch (currentIndicator)\<close> of ll.344-386: the datasets, the title, the title of
  the y axis, and the number of \<open>Math.random()\<close> calls made. \<open>n0\<close> is the number of calls
  made before.
\<close>

definition indicator_series ::
  "host \<Rightarrow> string \<Rightarrow> stock_data \<Rightarrow> point list \<Rightarrow> nat \<Rightarrow> dataset list \<times> chart_text \<times> chart_text \<times> nat"
where
  "indicator_series h ind data pts n0 =
     (if ind = ''rsi'' then
        (case d_rsi data of
           None \<Rightarrow> ([], NoText, NoText, 0)
         | Some rs \<Rightarrow>
             if length rs > 0 then
               ([\<lparr>ds_label = RsiLabel,
                  ds_data = rs,
                  ds_borderColor = ''#ff6b6b'',
                  ds_backgroundColor = ''rgba(255, 107, 107, 0.1)'',
                  ds_borderWidth = 2,
                  ds_fill = False,
                  ds_tension = None\<rparr>], RsiTitle, RsiLabel, 0)
             else ([], NoText, NoText, 0))
      else if ind = ''macd'' then
        ([\<lparr>ds_label = MacdLabel,
           ds_data = map (\<lambda>i. Num (random h (n0 + i) * 2 - 1)) [0 ..< length pts],
           ds_borderColor = ''#4ecdc4'',
           ds_backgroundColor = ''rgba(78, 205, 196, 0.1)'',
           ds_borderWidth = 2,
           ds_fill = False,
           ds_tension = None\<rparr>], MacdTitle, MacdLabel, length pts)
      else if ind = ''volume'' then
        ([\<lparr>ds_label = VolumeText,
           ds_data = map p_volume pts,
           ds_borderColor = ''#45b7d1'',
           ds_backgroundColor = ''rgba(69, 183, 209, 0.3)'',
           ds_borderWidth = 1,
           ds_fill = True,
           ds_tension = None\<rparr>], VolumeText, VolumeText, 0)
      else ([], NoText, NoText, 0))"

text \<open>\<open>renderIndicatorChart(data)\<close>, ll.332-428.\<close>

definition renderIndicatorChart :: "host \<Rightarrow> stock_data \<Rightarrow> view \<Rightarrow> exn option \<times> view" where
  "renderIndicatorChart h data v =
     (let v1 = (case indicatorChart v of None \<Rightarrow> v | Some c \<Rightarrow> destroy c v) in
      case d_data data of
        None \<Rightarrow> (Some (typeError h ''map''), v1)
      | Some pts \<Rightarrow>
          (let (ds, title, yAxisTitle, k) =
                 indicator_series h (currentIndicator v1) data pts (randomCalls v1);
               v2 = v1\<lparr>randomCalls := randomCalls v1 + k\<rparr>;
               (c, v3) =
                 newChart ''indicatorChart''
                   \<lparr>cc_labels = map p_date pts,
                    cc_datasets = ds,
                    cc_title = title,
                    cc_x_title = TimeAxis,
                    cc_y_title = yAxisTitle\<rparr> v2
           in (None, v3\<lparr>indicatorChart := Some c\<rparr>)))"

section \<open>fetchStockData\<close>

text \<open>
  The part of \<open>fetchStockData\<close> that runs at the call, up to the first \<open>await\<close>
  (ll.90-113): the loading placeholders, and the request.
\<close>

definition fetchStockData_start :: "ustring \<Rightarrow> string \<Rightarrow> string \<Rightarrow> string \<Rightarrow> view \<Rightarrow> view" where
  "fetchStockData_start symbol period interval analysisType v =
     v\<lparr>statusClass := ''status loading'',
       statusText := Analysing symbol,
       stockInfoBox := LoadingDiv LoadingStockInfo,
       technicalSummary := LoadingDiv LoadingTechnical,
       tradingSignals := LoadingDiv LoadingSignals,
       analysisBox := LoadingDiv LoadingAnalysis,
       requests := requests v @ [StockDataRequest symbol period interval analysisType]\<rparr>"

text \<open>
  The body of the \<open>try\<close> after the awaits (ll.114-143), run when the outcome of the
  request is known: the exception it ends with, if any, and the state it leaves.
\<close>

definition fetchStockData_try ::
  "host \<Rightarrow> ustring \<Rightarrow> stock_data outcome \<Rightarrow> view \<Rightarrow> exn option \<times> view" where
  "fetchStockData_try h symbol out v =
     (case out of
        FetchRejected e \<Rightarrow> (Some e, v)
      | JsonRejected status e \<Rightarrow> (Some e, v)
      | Responded status data \<Rightarrow>
          if \<not> ok status \<or> truthy (d_error data) then
            (None,
             v\<lparr>statusClass := ''status error'',
               statusText :=
                 StatusError (if truthy (d_error data) then BodyError (toString h (d_error data))
                              else HttpError status),
               stockInfoBox := LoadingDiv FailedData,
               technicalSummary := LoadingDiv FailedTechnical,
               tradingSignals := LoadingDiv FailedSignals,
               analysisBox := LoadingDiv FailedAnalysis\<rparr>)
          else
            (let v1 = v\<lparr>currentStockData := Some data, statusClass := ''status success''\<rparr> in
             case d_data data of
               None \<Rightarrow> (Some (typeError h ''length''), v1)
             | Some pts \<Rightarrow>
                 (let v2 = v1\<lparr>statusText := StatusSuccess symbol (length pts)\<rparr>;
                      v3 = updateStockInfo h (d_stock_info data) v2
                  in case d_technical_indicators data of
                       None \<Rightarrow> (Some (typeError h ''summary''), v3)
                     | Some ti \<Rightarrow>
                         (let v4 = updateTechnicalSummary h (ti_summary ti) v3;
                              v5 = updateTradingSignals h (ti_signals ti) v4;
                              v6 = updateAnalysis h (d_analysis data) v5
                          in case renderPriceChart h data v6 of
                               (Some e, v7) \<Rightarrow> (Some e, v7)
                             | (None, v7) \<Rightarrow> renderIndicatorChart h data v7))))"

text \<open>
  The continuation of \<open>fetchStockData\<close> with its \<open>catch\<close> (ll.145-149), which writes the
  status line and nothing else.
\<close>

definition fetchStockData_finish :: "host \<Rightarrow> ustring \<Rightarrow> stock_data outcome \<Rightarrow> view \<Rightarrow> view" where
  "fetchStockData_finish h symbol out v =
     (case fetchStockData_try h symbol out v of
        (None, v') \<Rightarrow> v'
      | (Some e, v') \<Rightarrow>
          v'\<lparr>statusClass := ''status error'', statusText := StatusException (exn_message e)\<rparr>)"

text \<open>One call of \<open>fetchStockData\<close> whose request ends with \<open>out\<close>, nothing else running in between.\<close>

definition fetchStockData ::
  "host \<Rightarrow> ustring \<Rightarrow> string \<Rightarrow> string \<Rightarrow> string \<Rightarrow> stock_data outcome \<Rightarrow> view \<Rightarrow> view" where
  "fetchStockData h symbol period interval analysisType out v =
     fetchStockData_finish h symbol out
       (fetchStockData_start symbol period interval analysisType v)"

section \<open>The handlers registered by initializeApp\<close>

text \<open>
  \<open>String.prototype.trim\<close> strips, at both ends, the code units that ECMAScript calls white
  space or line terminators: tab, line feed, vertical tab, form feed, carriage return,
  space, no-break space (U+00A0), U+1680, U+2000 to U+200A, the line and paragraph
  separators U+2028 and U+2029, U+202F, U+205F, the ideographic space U+3000 and the byte
  order mark U+FEFF.
\<close>

definition is_space :: "nat \<Rightarrow> bool" where
  "is_space c =
     (c \<in> {0x09, 0x0A, 0x0B, 0x0C, 0x0D, 0x20, 0xA0, 0x1680, 0x2028, 0x2029, 0x202F, 0x205F,
            0x3000, 0xFEFF}
      \<or> (0x2000 \<le> c \<and> c \<le> 0x200A))"

definition trim :: "ustring \<Rightarrow> ustring" where
  "trim s = rev (dropWhile is_space (rev (dropWhile is_space s)))"

text \<open>The values of the form's controls when a handler reads them.\<close>

record form =
  symbolInput :: ustring
  periodSelect :: string
  intervalSelect :: string
  analysisSelect :: string

text \<open>
  The \<open>submit\<close> listener, ll.17-27, up to the first \<open>await\<close> of the call it makes. The
  response is handled later by \<open>fetchStockData_finish\<close>.
\<close>

definition onSubmit :: "form \<Rightarrow> view \<Rightarrow> view" where
  "onSubmit f v =
     (let symbol = trim (symbolInput f) in
      if symbol = [] then v
      else fetchStockData_start symbol (periodSelect f) (intervalSelect f) (analysisSelect f) v)"

text \<open>
  The \<open>click\<close> listener of the tab button whose \<open>data-indicator\<close> is \<open>ind\<close>, ll.32-40. An
  exception of \<open>renderIndicatorChart\<close> leaves the listener uncaught.
\<close>

definition onTabClick :: "host \<Rightarrow> string \<Rightarrow> view \<Rightarrow> exn option \<times> view" where
  "onTabClick h ind v =
     (let v1 = v\<lparr>activeTab := Some ind, currentIndicator := ind\<rparr> in
      case currentStockData v1 of
        None \<Rightarrow> (None, v1)
      | Some data \<Rightarrow> renderIndicatorChart h data v1)"

text \<open>
  \<open>initializeApp()\<close>, ll.12-47, at page load: the listeners are registered, and the
  default symbol, if the input holds one, is queried (up to the first \<open>await\<close>).
\<close>

definition initializeApp :: "form \<Rightarrow> view \<Rightarrow> view" where
  "initializeApp f v =
     (if symbolInput f \<noteq> [] then
        fetchStockData_start (trim (symbolInput f)) ''1mo'' ''1d'' ''quick'' v
      else v)"

section \<open>app.js\<close>

record summary =
  sm_symbol :: jsval
  sm_first_time :: jsval
  sm_last_time :: jsval
  sm_first_close :: jsval
  sm_last_close :: jsval
  sm_change :: jsval
  sm_change_pct :: jsval
  sm_high :: jsval
  sm_low :: jsval

record app_point =
  ap_time :: jsval
  ap_close :: jsval

record stock_body =
  sb_error :: jsval
  sb_points :: "app_point list option"
  sb_summary :: "summary option"
  sb_llm_analysis :: jsval

datatype app_status =
    AppStatusUnset
  | Querying ustring         \<comment> \<open>app.js l.8, "querying <symbol>..."\<close>
  | AppError error_msg       \<comment> \<open>app.js l.18, cross mark, "error: <msg>"\<close>
  | AppSuccess ustring nat   \<comment> \<open>app.js l.24, check mark, "got <symbol> data, <n> records"\<close>
  | AppException exn         \<comment> \<open>app.js l.49, cross mark, "request exception: <err>"\<close>

datatype app_text =
    AppMarkup
  | AppLoading               \<comment> \<open>app.js ll.9-10, "loading..."\<close>
  | AppNoData                \<comment> \<open>app.js ll.19, 50, "no data yet"\<close>
  | AppNoAnalysis            \<comment> \<open>app.js ll.20, 51, "no analysis yet"\<close>
  | SummaryLines "string list"   \<comment> \<open>app.js ll.27-36, the nine interpolated values in order\<close>
  | LlmText string           \<comment> \<open>app.js l.43\<close>
  | LlmDisabled              \<comment> \<open>app.js l.45, "LLM analysis not enabled or the call failed..."\<close>

record app_chart =
  ac_id :: nat
  ac_labels :: "jsval list"
  ac_label :: string
  ac_data :: "jsval list"

record app_view =
  a_statusText :: app_status
  summaryBox :: app_text
  a_analysisBox :: app_text
  chart :: "app_chart option"
  a_liveCharts :: "app_chart list"
  a_nextChartId :: nat
  a_requests :: "request list"

text \<open>\<open>x.toFixed(2)\<close>: a \<open>TypeError\<close> (\<open>None\<close>) unless \<open>x\<close> is a number.\<close>

definition toFixed2 :: "host \<Rightarrow> jsval \<Rightarrow> string option" where
  "toFixed2 h x = (if is_number x then Some (toFixed h (toNumber h x) 2) else None)"

text \<open>\<open>renderChart(labels, data, symbol)\<close>, app.js ll.55-79.\<close>

definition renderChart :: "jsval list \<Rightarrow> jsval list \<Rightarrow> string \<Rightarrow> app_view \<Rightarrow> app_view" where
  "renderChart ls ds symbol v =
     (let live = (case chart v of None \<Rightarrow> a_liveCharts v
                  | Some c \<Rightarrow> filter (\<lambda>d. ac_id d \<noteq> ac_id c) (a_liveCharts v));
          c' = \<lparr>ac_id = a_nextChartId v, ac_labels = ls, ac_label = symbol, ac_data = ds\<rparr>
      in v\<lparr>chart := Some c', a_liveCharts := live @ [c'], a_nextChartId := Suc (a_nextChartId v)\<rparr>)"

text \<open>\<open>fetchStock(symbol)\<close> up to its first \<open>await\<close>, app.js ll.4-13.\<close>

definition fetchStock_start :: "ustring \<Rightarrow> app_view \<Rightarrow> app_view" where
  "fetchStock_start symbol v =
     v\<lparr>a_statusText := Querying symbol,
       summaryBox := AppLoading,
       a_analysisBox := AppLoading,
       a_requests := a_requests v @ [StockRequest symbol]\<rparr>"

text \<open>The body of its \<open>try\<close> after the awaits, app.js ll.14-46.\<close>

definition fetchStock_try ::
  "host \<Rightarrow> ustring \<Rightarrow> stock_body outcome \<Rightarrow> app_view \<Rightarrow> exn option \<times> app_view" where
  "fetchStock_try h symbol out v =
     (case out of
        FetchRejected e \<Rightarrow> (Some e, v)
      | JsonRejected status e \<Rightarrow> (Some e, v)
      | Responded status data \<Rightarrow>
          if \<not> ok status \<or> truthy (sb_error data) then
            (None,
             v\<lparr>a_statusText :=
                 AppError (if truthy (sb_error data) then BodyError (toString h (sb_error data))
                           else HttpError status),
               summaryBox := AppNoData,
               a_analysisBox := AppNoAnalysis\<rparr>)
          else
            (case sb_points data of
               None \<Rightarrow> (Some (typeError h ''length''), v)
             | Some pts \<Rightarrow>
                 (let v1 = v\<lparr>a_statusText := AppSuccess symbol (length pts)\<rparr> in
                  case sb_summary data of
                    None \<Rightarrow> (Some (typeError h ''symbol''), v1)
                  | Some s \<Rightarrow>
                      (case those (map (toFixed2 h)
                              [sm_first_close s, sm_last_close s, sm_change s, sm_change_pct s,
                               sm_high s, sm_low s]) of
                         None \<Rightarrow> (Some (typeError h ''toFixed''), v1)
                       | Some fixed \<Rightarrow>
                           (let v2 = v1\<lparr>summaryBox :=
                                          SummaryLines
                                            ([toString h (sm_symbol s), toString h (sm_first_time s),
                                              toString h (sm_last_time s)] @ fixed)\<rparr>;
                                v3 = renderChart (map ap_time pts) (map ap_close pts)
                                       (toString h (sm_symbol s)) v2
                            in (None,
                                v3\<lparr>a_analysisBox :=
                                     (if truthy (sb_llm_analysis data)
                                      then LlmText (toString h (sb_llm_analysis data))
                                      else LlmDisabled)\<rparr>))))))"

text \<open>The continuation of \<open>fetchStock\<close> with its \<open>catch\<close>, app.js ll.48-52.\<close>

definition fetchStock_finish :: "host \<Rightarrow> ustring \<Rightarrow> stock_body outcome \<Rightarrow> app_view \<Rightarrow> app_view" where
  "fetchStock_finish h symbol out v =
     (case fetchStock_try h symbol out v of
        (None, v') \<Rightarrow> v'
      | (Some e, v') \<Rightarrow>
          v'\<lparr>a_statusText := AppException e, summaryBox := AppNoData,
             a_analysisBox := AppNoAnalysis\<rparr>)"

definition fetchStock :: "host \<Rightarrow> ustring \<Rightarrow> stock_body outcome \<Rightarrow> app_view \<Rightarrow> app_view" where
  "fetchStock h symbol out v = fetchStock_finish h symbol out (fetchStock_start symbol v)"

text \<open>The \<open>submit\<close> listener of app.js, ll.85-90, and the page load, ll.92-94.\<close>

definition app_onSubmit :: "ustring \<Rightarrow> app_view \<Rightarrow> app_view" where
  "app_onSubmit input v =
     (let symbol = trim input in if symbol = [] then v else fetchStock_start symbol v)"

definition app_onLoad :: "ustring \<Rightarrow> app_view \<Rightarrow> app_view" where
  "app_onLoad input v = (if input \<noteq> [] then fetchStock_start (trim input) v else v)"

section \<open>Concrete inputs\<close>

text \<open>
  A host for the examples: \<open>Math.random()\<close> returns 1/4 at its first call and 3/4 at every
  later one.
\<close>

definition example_host :: host where
  "example_host =
     \<lparr>toLocaleString = (\<lambda>n. case n of None \<Rightarrow> ''NaN'' | Some r \<Rightarrow> ''#''),
      toFixed = (\<lambda>n d. case n of None \<Rightarrow> ''NaN'' | Some r \<Rightarrow> ''#''),
      numberToString = (\<lambda>n. case n of None \<Rightarrow> ''NaN'' | Some r \<Rightarrow> ''#''),
      stringToNumber = (\<lambda>s. None),
      random = (\<lambda>n. if n = 0 then 1 / 4 else 3 / 4),
      typeErrorMessage = (\<lambda>p. ''Cannot read properties of undefined'')\<rparr>"

text \<open>The state of a freshly loaded page: nothing written, no chart, the \<open>rsi\<close> tab active.\<close>

definition initial_view :: view where
  "initial_view =
     \<lparr>statusClass = ''status'', statusText = StatusUnset, stockInfoBox = Markup,
      technicalSummary = Markup, tradingSignals = Markup, analysisBox = Markup,
      currentStockData = None, currentIndicator = ''rsi'', activeTab = Some ''rsi'',
      priceChart = None, indicatorChart = None, liveCharts = [], nextChartId = 0,
      randomCalls = 0, requests = []\<rparr>"

definition initial_app_view :: app_view where
  "initial_app_view =
     \<lparr>a_statusText = AppStatusUnset, summaryBox = AppMarkup, a_analysisBox = AppMarkup,
      chart = None, a_liveCharts = [], a_nextChartId = 0, a_requests = []\<rparr>"

definition example_info :: stock_info where
  "example_info =
     \<lparr>si_error = Undefined, si_name = Str ''Apple Inc.'', si_sector = Str ''Technology'',
      si_market_cap = Num 2900000000000, si_pe_ratio = Num 29, si_dividend_yield = Undefined,
      si_beta = Num 0, si_price = Num 185, si_exchange = Str ''NMS''\<rparr>"

definition example_signals :: signals where
  "example_signals =
     \<lparr>sg_overall_signal = Str ''bullish'', sg_signal_strength = Num (3 / 5),
      sg_signals = Some [Str ''RSI neutral'']\<rparr>"

text \<open>A complete body for the symbol \<open>symb\<close>, with one record whose close is \<open>c\<close>.\<close>

definition example_data :: "string \<Rightarrow> rat \<Rightarrow> stock_data" where
  "example_data symb c =
     \<lparr>d_error = Undefined, d_symbol = Str symb, d_period = Str ''1mo'',
      d_data = Some [\<lparr>p_date = Str ''2024-01-02'', p_close = Num c, p_volume = Num 1000\<rparr>],
      d_rsi = Some [Num 55], d_stock_info = Some example_info,
      d_technical_indicators =
        Some \<lparr>ti_summary = Str ''RSI 55'', ti_signals = Some example_signals\<rparr>,
      d_analysis = Str ''steady''\<rparr>"


definition example_form :: "ustring \<Rightarrow> form" where
  "example_form symb =
     \<lparr>symbolInput = symb, periodSelect = ''1y'', intervalSelect = ''1wk'',
      analysisSelect = ''detailed''\<rparr>"

section \<open>Live chart instances\<close>

text \<open>The instances on the canvas \<open>cv\<close> that were created and not destroyed.\<close>

definition live_on :: "string \<Rightarrow> view \<Rightarrow> chart list" where
  "live_on cv v = filter (\<lambda>c. chart_canvas c = cv) (liveCharts v)"

text \<open>
  Each global holds the one live instance of its canvas, or the canvas has none; the
  identifiers in use differ and lie below the next one to be given out. The freshly loaded page is in
  such a state, and both renderers keep it.
\<close>

definition charts_owned :: "view \<Rightarrow> bool" where
  "charts_owned v =
     (live_on ''priceChart'' v = (case priceChart v of None \<Rightarrow> [] | Some c \<Rightarrow> [c])
      \<and> live_on ''indicatorChart'' v = (case indicatorChart v of None \<Rightarrow> [] | Some c \<Rightarrow> [c])
      \<and> list_all (\<lambda>c. chart_id c < nextChartId v) (liveCharts v)
      \<and> distinct (map chart_id (liveCharts v)))"

section \<open>Two queries in flight\<close>





section \<open>The stock-info panel: zero and missing values\<close>

lemma formatValue_na:
  "formatValue h Null suffix = ''N/A''"
  "formatValue h Undefined suffix = ''N/A''"
  "formatValue h (Num 0) suffix = ''N/A''"
  by (simp_all add: formatValue_def)

lemma formatMarketCap_na:
  "formatMarketCap h Null = ''N/A''"
  "formatMarketCap h Undefined = ''N/A''"
  "formatMarketCap h (Num 0) = ''N/A''"
  by (simp_all add: formatMarketCap_def)

text \<open>
  The rows that pass the field itself to \<open>formatValue\<close> (P/E ratio, beta) show \<open>N/A\<close> for
  \<open>null\<close>, \<open>undefined\<close> and 0; the price row shows \<open>$N/A\<close>.
\<close>

lemma plain_rows_na:
  assumes "x = Null \<or> x = Undefined \<or> x = Num 0"
  shows "map_of (info_items h (si\<lparr>si_pe_ratio := x\<rparr>)) PeRatio = Some ''N/A''"
    and "map_of (info_items h (si\<lparr>si_beta := x\<rparr>)) Beta = Some ''N/A''"
    and "map_of (info_items h (si\<lparr>si_price := x\<rparr>)) CurrentPrice = Some ''$N/A''"
    and "map_of (info_items h (si\<lparr>si_market_cap := x\<rparr>)) MarketCap = Some ''N/A''"
  using assms by (auto simp add: info_items_def formatValue_def formatMarketCap_def)

text \<open>
  The dividend row multiplies by 100 before \<open>formatValue\<close> looks at the value: 0 and
  \<open>null\<close> become 0 and show \<open>N/A\<close>.
\<close>

lemma dividend_row_zero_or_null:
  assumes "x = Null \<or> x = Num 0"
  shows "map_of (info_items h (si\<lparr>si_dividend_yield := x\<rparr>)) DividendYield = Some ''N/A''"
  using assms by (auto simp add: info_items_def formatValue_def times_def ofNumber_def)

lemma percent_not_na: "s @ ''%'' \<noteq> ''N/A''"
proof
  assume "s @ ''%'' = ''N/A''"
  then have "last (s @ ''%'') = last ''N/A''" by (rule arg_cong)
  then show False by simp
qed

text \<open>
  C9. In the stock-info panel a numeric field that is \<open>null\<close>, \<open>undefined\<close> or 0 is shown as
  \<open>N/A\<close>. The code does not do this for a dividend yield that is \<open>undefined\<close>: the product
  \<open>undefined * 100\<close> is \<open>NaN\<close>, which passes the three tests of \<open>formatValue\<close>, is a number,
  and is shown as the locale's text for \<open>NaN\<close> followed by the percent sign, whatever the
  locale and whatever the other fields hold.
\<close>

theorem C9_missing_dividend_yield_shows_NaN:
  "map_of (info_items h (si\<lparr>si_dividend_yield := Undefined\<rparr>)) DividendYield
     = Some (toLocaleString h None @ ''%'')
   \<and> toLocaleString h None @ ''%'' \<noteq> ''N/A''"
  by (simp add: info_items_def formatValue_def times_def ofNumber_def percent_not_na)

section \<open>Lists of live charts\<close>

lemma single_member:
  assumes "filter P xs = [c]" "x \<in> set xs" "P x"
  shows "x = c"
proof -
  from assms(2,3) have "x \<in> set (filter P xs)" by simp
  with assms(1) show ?thesis by simp
qed

lemma single_holds:
  assumes "filter P xs = [c]"
  shows "c \<in> set xs \<and> P c"
proof -
  have "c \<in> set (filter P xs)" using assms by simp
  then show ?thesis by simp
qed

lemma destroy_empties_canvas:
  assumes "filter (\<lambda>d. chart_canvas d = a) xs = [c]"
  shows "filter (\<lambda>d. chart_canvas d = a) (filter (\<lambda>d. chart_id d \<noteq> chart_id c) xs) = []"
proof -
  have "\<And>x. x \<in> set xs \<Longrightarrow> chart_canvas x = a \<Longrightarrow> chart_id x = chart_id c"
    using single_member [OF assms] by blast
  then show ?thesis by (auto simp add: filter_empty_conv)
qed

lemma destroy_keeps_other_canvas:
  assumes "distinct (map chart_id xs)" "filter (\<lambda>d. chart_canvas d = a) xs = [c]" "a \<noteq> b"
  shows "filter (\<lambda>d. chart_canvas d = b) (filter (\<lambda>d. chart_id d \<noteq> chart_id c) xs)
         = filter (\<lambda>d. chart_canvas d = b) xs"
proof -
  have c: "c \<in> set xs" "chart_canvas c = a" using single_holds [OF assms(2)] by simp_all
  have "\<And>x. x \<in> set xs \<Longrightarrow> chart_canvas x = b \<Longrightarrow> chart_id x \<noteq> chart_id c"
  proof
    fix x assume x: "x \<in> set xs" "chart_canvas x = b" "chart_id x = chart_id c"
    from assms(1) have "inj_on chart_id (set xs)" by (simp add: distinct_map)
    with x(1,3) c(1) have "x = c" by (auto dest: inj_onD)
    with x(2) c(2) assms(3) show False by simp
  qed
  then have "filter (\<lambda>d. chart_id d \<noteq> chart_id c \<and> chart_canvas d = b) xs
             = filter (\<lambda>d. chart_canvas d = b) xs"
    by (intro filter_cong) auto
  then show ?thesis by simp
qed

lemma charts_owned_initial: "charts_owned initial_view"
  by (simp add: charts_owned_def initial_view_def live_on_def)

text \<open>
  \<open>renderPriceChart\<close> destroys the instance it replaces: from a state in which the globals
  own the live instances, it leaves one live instance on the price canvas.
\<close>

lemma renderPriceChart_owned:
  assumes "charts_owned v" "d_data d = Some pts"
  shows "charts_owned (snd (renderPriceChart h d v))
         \<and> length (live_on ''priceChart'' (snd (renderPriceChart h d v))) = 1"
proof (cases "priceChart v")
  case None
  with assms show ?thesis
    by (auto simp add: charts_owned_def live_on_def renderPriceChart_def newChart_def
        Let_def list_all_iff split: option.splits)
next
  case (Some c)
  with assms have one: "filter (\<lambda>d. chart_canvas d = ''priceChart'') (liveCharts v) = [c]"
    and dist: "distinct (map chart_id (liveCharts v))"
    by (simp_all add: charts_owned_def live_on_def)
  note a = destroy_empties_canvas [OF one]
  have b: "filter (\<lambda>d. chart_canvas d = ''indicatorChart'')
             (filter (\<lambda>d. chart_id d \<noteq> chart_id c) (liveCharts v))
           = filter (\<lambda>d. chart_canvas d = ''indicatorChart'') (liveCharts v)"
    by (rule destroy_keeps_other_canvas [OF dist one]) simp
  from assms Some a b show ?thesis
    by (auto simp add: charts_owned_def live_on_def renderPriceChart_def newChart_def
        destroy_def Let_def list_all_iff distinct_map_filter split: option.splits)
qed

text \<open>The same for \<open>renderIndicatorChart\<close>, whatever the selected indicator.\<close>

lemma renderIndicatorChart_owned:
  assumes "charts_owned v" "d_data d = Some pts"
  shows "charts_owned (snd (renderIndicatorChart h d v))
         \<and> length (live_on ''indicatorChart'' (snd (renderIndicatorChart h d v))) = 1
         \<and> live_on ''priceChart'' (snd (renderIndicatorChart h d v)) = live_on ''priceChart'' v
         \<and> priceChart (snd (renderIndicatorChart h d v)) = priceChart v"
proof (cases "indicatorChart v")
  case None
  with assms show ?thesis
    by (auto simp add: charts_owned_def live_on_def renderIndicatorChart_def newChart_def
        Let_def list_all_iff split: option.splits prod.splits)
next
  case (Some c)
  with assms have one: "filter (\<lambda>d. chart_canvas d = ''indicatorChart'') (liveCharts v) = [c]"
    and dist: "distinct (map chart_id (liveCharts v))"
    by (simp_all add: charts_owned_def live_on_def)
  note a = destroy_empties_canvas [OF one]
  have b: "filter (\<lambda>d. chart_canvas d = ''priceChart'')
             (filter (\<lambda>d. chart_id d \<noteq> chart_id c) (liveCharts v))
           = filter (\<lambda>d. chart_canvas d = ''priceChart'') (liveCharts v)"
    by (rule destroy_keeps_other_canvas [OF dist one]) simp
  from assms Some a b show ?thesis
    by (auto simp add: charts_owned_def live_on_def renderIndicatorChart_def newChart_def
        destroy_def Let_def list_all_iff distinct_map_filter split: option.splits prod.splits)
qed

section \<open>What the renderers write\<close>

lemma renderPriceChart_frame:
  "statusClass (snd (renderPriceChart h d v)) = statusClass v"
  "statusText (snd (renderPriceChart h d v)) = statusText v"
  "stockInfoBox (snd (renderPriceChart h d v)) = stockInfoBox v"
  "technicalSummary (snd (renderPriceChart h d v)) = technicalSummary v"
  "tradingSignals (snd (renderPriceChart h d v)) = tradingSignals v"
  "analysisBox (snd (renderPriceChart h d v)) = analysisBox v"
  "currentStockData (snd (renderPriceChart h d v)) = currentStockData v"
  "currentIndicator (snd (renderPriceChart h d v)) = currentIndicator v"
  "activeTab (snd (renderPriceChart h d v)) = activeTab v"
  "indicatorChart (snd (renderPriceChart h d v)) = indicatorChart v"
  "randomCalls (snd (renderPriceChart h d v)) = randomCalls v"
  "requests (snd (renderPriceChart h d v)) = requests v"
  by (simp_all add: renderPriceChart_def newChart_def destroy_def Let_def split: option.splits)

lemma renderIndicatorChart_frame:
  "statusClass (snd (renderIndicatorChart h d v)) = statusClass v"
  "statusText (snd (renderIndicatorChart h d v)) = statusText v"
  "stockInfoBox (snd (renderIndicatorChart h d v)) = stockInfoBox v"
  "technicalSummary (snd (renderIndicatorChart h d v)) = technicalSummary v"
  "tradingSignals (snd (renderIndicatorChart h d v)) = tradingSignals v"
  "analysisBox (snd (renderIndicatorChart h d v)) = analysisBox v"
  "currentStockData (snd (renderIndicatorChart h d v)) = currentStockData v"
  "currentIndicator (snd (renderIndicatorChart h d v)) = currentIndicator v"
  "activeTab (snd (renderIndicatorChart h d v)) = activeTab v"
  "priceChart (snd (renderIndicatorChart h d v)) = priceChart v"
  "requests (snd (renderIndicatorChart h d v)) = requests v"
  by (simp_all add: renderIndicatorChart_def newChart_def destroy_def Let_def
      split: option.splits prod.splits)

lemma renderPriceChart_result:
  assumes "d_data d = Some pts"
  shows "fst (renderPriceChart h d v) = None"
    and "map_option chart_config (priceChart (snd (renderPriceChart h d v)))
         = Some \<lparr>cc_labels = map p_date pts,
                 cc_datasets =
                   [\<lparr>ds_label = ClosePriceLabel (toString h (d_symbol d)),
                     ds_data = map p_close pts,
                     ds_borderColor = ''#2a5298'',
                     ds_backgroundColor = ''rgba(42, 82, 152, 0.1)'',
                     ds_borderWidth = 2,
                     ds_fill = True,
                     ds_tension = Some (1 / 10)\<rparr>],
                 cc_title = PriceTrendTitle (toString h (d_symbol d)) (toString h (d_period d)),
                 cc_x_title = TimeAxis,
                 cc_y_title = PriceAxis\<rparr>"
  using assms
  by (simp_all add: renderPriceChart_def newChart_def Let_def split: option.splits)

lemma renderIndicatorChart_result:
  assumes "d_data d = Some pts"
  shows "fst (renderIndicatorChart h d v) = None"
    and "map_option chart_config (indicatorChart (snd (renderIndicatorChart h d v)))
         = (case indicator_series h (currentIndicator v) d pts (randomCalls v) of
              (ds, title, yAxisTitle, k) \<Rightarrow>
                Some \<lparr>cc_labels = map p_date pts, cc_datasets = ds, cc_title = title,
                       cc_x_title = TimeAxis, cc_y_title = yAxisTitle\<rparr>)"
  using assms
  by (simp_all add: renderIndicatorChart_def newChart_def destroy_def Let_def
      split: option.splits prod.splits)

lemma text_panels_frame:
  "statusText (updateStockInfo h si v) = statusText v"
  "statusText (updateTechnicalSummary h x v) = statusText v"
  "statusText (updateTradingSignals h sg v) = statusText v"
  "statusText (updateAnalysis h x v) = statusText v"
  "statusClass (updateStockInfo h si v) = statusClass v"
  "statusClass (updateTechnicalSummary h x v) = statusClass v"
  "statusClass (updateTradingSignals h sg v) = statusClass v"
  "statusClass (updateAnalysis h x v) = statusClass v"
  "currentStockData (updateStockInfo h si v) = currentStockData v"
  "currentStockData (updateTechnicalSummary h x v) = currentStockData v"
  "currentStockData (updateTradingSignals h sg v) = currentStockData v"
  "currentStockData (updateAnalysis h x v) = currentStockData v"
  "currentIndicator (updateStockInfo h si v) = currentIndicator v"
  "currentIndicator (updateTechnicalSummary h x v) = currentIndicator v"
  "currentIndicator (updateTradingSignals h sg v) = currentIndicator v"
  "currentIndicator (updateAnalysis h x v) = currentIndicator v"
  "randomCalls (updateStockInfo h si v) = randomCalls v"
  "randomCalls (updateTechnicalSummary h x v) = randomCalls v"
  "randomCalls (updateTradingSignals h sg v) = randomCalls v"
  "randomCalls (updateAnalysis h x v) = randomCalls v"
  by (simp_all add: updateStockInfo_def updateTechnicalSummary_def updateTradingSignals_def
      updateAnalysis_def split: option.splits)

lemma text_panels_written:
  "stockInfoBox (updateAnalysis h x (updateTradingSignals h sg (updateTechnicalSummary h y
      (updateStockInfo h si v)))) = stockInfoBox (updateStockInfo h si v)"
  "technicalSummary (updateAnalysis h x (updateTradingSignals h sg (updateTechnicalSummary h y v)))
     = Pre (if truthy y then Data (toString h y) else Fixed NoTechnicalData)"
  "tradingSignals (updateAnalysis h x (updateTradingSignals h sg v))
     = tradingSignals (updateTradingSignals h sg v)"
  "analysisBox (updateAnalysis h x v)
     = Pre (if truthy x then Data (toString h x) else Fixed NoAnalysisData)"
  by (simp_all add: updateStockInfo_def updateTechnicalSummary_def updateTradingSignals_def
      updateAnalysis_def split: option.splits)

text \<open>
  The continuation of \<open>fetchStockData\<close> for a response that is not a failure and has its
  records and its \<open>technical_indicators\<close>: the statements of ll.129-143 in order, none of
  which throws.
\<close>

lemma fetchStockData_finish_success:
  assumes "ok st" "\<not> truthy (d_error d)" "d_data d = Some pts"
    "d_technical_indicators d = Some ti"
  shows "fetchStockData_finish h symbol (Responded st d) v =
     snd (renderIndicatorChart h d (snd (renderPriceChart h d
       (updateAnalysis h (d_analysis d)
         (updateTradingSignals h (ti_signals ti)
           (updateTechnicalSummary h (ti_summary ti)
             (updateStockInfo h (d_stock_info d)
               (v\<lparr>currentStockData := Some d, statusClass := ''status success'',
                  statusText := StatusSuccess symbol (length pts)\<rparr>))))))))"
proof -
  let ?v6 = "updateAnalysis h (d_analysis d)
         (updateTradingSignals h (ti_signals ti)
           (updateTechnicalSummary h (ti_summary ti)
             (updateStockInfo h (d_stock_info d)
               (v\<lparr>currentStockData := Some d, statusClass := ''status success'',
                  statusText := StatusSuccess symbol (length pts)\<rparr>))))"
  obtain e7 v7 where p: "renderPriceChart h d ?v6 = (e7, v7)" by (cases "renderPriceChart h d ?v6")
  with renderPriceChart_result(1) [OF assms(3), of h ?v6] have e7: "e7 = None" by simp
  obtain e8 v8 where i: "renderIndicatorChart h d v7 = (e8, v8)"
    by (cases "renderIndicatorChart h d v7")
  with renderIndicatorChart_result(1) [OF assms(3), of h v7] have e8: "e8 = None" by simp
  have "fetchStockData_try h symbol (Responded st d) v = (None, v8)"
    using assms p e7 i e8 by (simp add: fetchStockData_try_def Let_def)
  then show ?thesis using p i by (simp add: fetchStockData_finish_def)
qed


section \<open>Every outcome of a fetch and the loading placeholders\<close>

text \<open>
  In app.js the \<open>catch\<close> writes both panels, so no outcome of \<open>fetchStock\<close> leaves a panel
  with its loading text.
\<close>

lemma fetchStock_no_panel_left_loading:
  "summaryBox (fetchStock h symbol out v) \<noteq> AppLoading
   \<and> a_analysisBox (fetchStock h symbol out v) \<noteq> AppLoading"
  by (cases out)
     (auto simp add: fetchStock_def fetchStock_finish_def fetchStock_try_def fetchStock_start_def
        renderChart_def Let_def split: option.splits)

text \<open>In enhanced\_app.js the branch for a failed response writes all four panels.\<close>

lemma fetchStockData_failed_response_panels:
  assumes "\<not> ok status \<or> truthy (d_error d)"
  shows "stockInfoBox (fetchStockData h symbol p i a (Responded status d) v) = LoadingDiv FailedData"
    and "technicalSummary (fetchStockData h symbol p i a (Responded status d) v)
           = LoadingDiv FailedTechnical"
    and "tradingSignals (fetchStockData h symbol p i a (Responded status d) v)
           = LoadingDiv FailedSignals"
    and "analysisBox (fetchStockData h symbol p i a (Responded status d) v)
           = LoadingDiv FailedAnalysis"
  using assms
  by (auto simp add: fetchStockData_def fetchStockData_finish_def fetchStockData_try_def
      fetchStockData_start_def)

text \<open>
  C2. Every outcome of a stock fetch leaves each panel that was set to a loading placeholder
  in a terminal state. In enhanced\_app.js this fails when \<open>fetch\<close> rejects (and likewise
  when \<open>response.json()\<close> rejects): the \<open>catch\<close> of \<open>fetchStockData\<close> writes the status line
  only, and the four panels keep the loading placeholders written at the start of the call,
  whatever the symbol and the state before.
\<close>

theorem C2_rejected_fetch_leaves_loading_placeholders:
  "stockInfoBox (fetchStockData h symbol period interval analysisType (FetchRejected e) v)
     = LoadingDiv LoadingStockInfo
   \<and> technicalSummary (fetchStockData h symbol period interval analysisType (FetchRejected e) v)
     = LoadingDiv LoadingTechnical
   \<and> tradingSignals (fetchStockData h symbol period interval analysisType (FetchRejected e) v)
     = LoadingDiv LoadingSignals
   \<and> analysisBox (fetchStockData h symbol period interval analysisType (FetchRejected e) v)
     = LoadingDiv LoadingAnalysis
   \<and> statusText (fetchStockData h symbol period interval analysisType (FetchRejected e) v)
     = StatusException (exn_message e)"
  by (simp add: fetchStockData_def fetchStockData_finish_def fetchStockData_try_def
      fetchStockData_start_def)

lemma rejected_json_leaves_loading_placeholders:
  "stockInfoBox (fetchStockData h symbol period interval analysisType (JsonRejected st e) v)
     = LoadingDiv LoadingStockInfo
   \<and> analysisBox (fetchStockData h symbol period interval analysisType (JsonRejected st e) v)
     = LoadingDiv LoadingAnalysis"
  by (simp add: fetchStockData_def fetchStockData_finish_def fetchStockData_try_def
      fetchStockData_start_def)

section \<open>The MACD tab\<close>

text \<open>
  C3. With the \<open>macd\<close> indicator selected and no MACD series from the backend, the indicator
  chart shows an explicit "unavailable" result and no fabricated values. The code does the
  opposite: it never reads a MACD series of the body, and for every body that has records
  it draws one dataset labelled \<open>MACD\<close>, under the title of l.370, whose values are
  \<open>Math.random() * 2 - 1\<close>, one call per record.
\<close>

theorem C3_macd_series_is_synthesized:
  "fst (renderIndicatorChart h (d\<lparr>d_data := Some pts\<rparr>) (v\<lparr>currentIndicator := ''macd''\<rparr>)) = None
   \<and> map_option (\<lambda>c. (cc_title (chart_config c), map ds_label (cc_datasets (chart_config c))))
        (indicatorChart
          (snd (renderIndicatorChart h (d\<lparr>d_data := Some pts\<rparr>) (v\<lparr>currentIndicator := ''macd''\<rparr>))))
      = Some (MacdTitle, [MacdLabel])
   \<and> map_option (\<lambda>c. map ds_data (cc_datasets (chart_config c)))
        (indicatorChart
          (snd (renderIndicatorChart h (d\<lparr>d_data := Some pts\<rparr>) (v\<lparr>currentIndicator := ''macd''\<rparr>))))
      = Some [map (\<lambda>i. Num (random h (randomCalls v + i) * 2 - 1)) [0 ..< length pts]]"
  by (simp add: renderIndicatorChart_def indicator_series_def newChart_def destroy_def Let_def
      split: option.splits)

section \<open>Rendering twice\<close>

lemma text_panels_idempotent:
  "updateStockInfo h si (updateStockInfo h si v) = updateStockInfo h si v"
  "updateTechnicalSummary h x (updateTechnicalSummary h x v) = updateTechnicalSummary h x v"
  "updateTradingSignals h sg (updateTradingSignals h sg v) = updateTradingSignals h sg v"
  "updateAnalysis h x (updateAnalysis h x v) = updateAnalysis h x v"
  by (simp_all add: updateStockInfo_def updateTechnicalSummary_def updateTradingSignals_def
      updateAnalysis_def split: option.splits)

lemma renderPriceChart_config_repeats:
  "map_option chart_config (priceChart (snd (renderPriceChart h d (snd (renderPriceChart h d v)))))
   = map_option chart_config (priceChart (snd (renderPriceChart h d v)))"
  by (simp add: renderPriceChart_def newChart_def destroy_def Let_def split: option.splits)

text \<open>With any indicator but \<open>macd\<close> the second rendering draws what the first drew.\<close>

lemma renderIndicatorChart_config_repeats:
  assumes "currentIndicator v \<noteq> ''macd''"
  shows "map_option chart_config
           (indicatorChart (snd (renderIndicatorChart h d (snd (renderIndicatorChart h d v)))))
         = map_option chart_config (indicatorChart (snd (renderIndicatorChart h d v)))"
  using assms
  by (simp add: renderIndicatorChart_def indicator_series_def newChart_def destroy_def Let_def
      split: option.splits)

text \<open>
  C4. Every renderer is idempotent: called twice with the same data and the same selected
  indicator it shows the same thing, and one live chart instance per chart remains. The
  text panels, the price chart and the indicator chart under \<open>rsi\<close> and \<open>volume\<close> behave so
  (the lemmas above and \<open>renderPriceChart_owned\<close>, \<open>renderIndicatorChart_owned\<close>). Under
  \<open>macd\<close> the indicator chart does not: on the freshly loaded page, with a body of one
  record and \<open>Math.random()\<close> returning 1/4 and then 3/4, the first rendering draws the
  value -1/2 and the second, from the same data, the value 1/2.
\<close>

theorem C4_macd_rendering_not_repeatable:
  "map_option (\<lambda>c. map ds_data (cc_datasets (chart_config c)))
     (indicatorChart
       (snd (renderIndicatorChart example_host (example_data ''AAPL'' 185)
              (initial_view\<lparr>currentIndicator := ''macd''\<rparr>))))
     = Some [[Num (- 1 / 2)]]
   \<and> map_option (\<lambda>c. map ds_data (cc_datasets (chart_config c)))
     (indicatorChart
       (snd (renderIndicatorChart example_host (example_data ''AAPL'' 185)
              (snd (renderIndicatorChart example_host (example_data ''AAPL'' 185)
                     (initial_view\<lparr>currentIndicator := ''macd''\<rparr>))))))
     = Some [[Num (1 / 2)]]"
  by (simp add: renderIndicatorChart_def indicator_series_def newChart_def destroy_def Let_def
      example_host_def example_data_def initial_view_def)

section \<open>Missing optional fields of a successful response\<close>

text \<open>
  A body without \<open>stock_info\<close>, without \<open>rsi\<close>, without \<open>analysis\<close>, and whose
  \<open>technical_indicators\<close> object has neither \<open>summary\<close> nor \<open>signals\<close>, is shown with the
  placeholder of each panel and an indicator chart without dataset; nothing is thrown.
\<close>

lemma absent_fields_inside_are_tolerated:
  assumes "d_error d = Undefined" "d_data d = Some pts" "d_stock_info d = None"
    "d_technical_indicators d = Some \<lparr>ti_summary = Undefined, ti_signals = None\<rparr>"
    "d_analysis d = Undefined" "d_rsi d = None" "currentIndicator v = ''rsi''"
  shows "statusText (fetchStockData h symbol p i a (Responded 200 d) v)
           = StatusSuccess symbol (length pts)"
    and "stockInfoBox (fetchStockData h symbol p i a (Responded 200 d) v)
           = LoadingDiv StockInfoUnavailable"
    and "technicalSummary (fetchStockData h symbol p i a (Responded 200 d) v)
           = Pre (Fixed NoTechnicalData)"
    and "tradingSignals (fetchStockData h symbol p i a (Responded 200 d) v)
           = LoadingDiv NoSignals"
    and "analysisBox (fetchStockData h symbol p i a (Responded 200 d) v)
           = Pre (Fixed NoAnalysisData)"
    and "map_option (\<lambda>c. cc_datasets (chart_config c))
           (indicatorChart (fetchStockData h symbol p i a (Responded 200 d) v)) = Some []"
proof -
  have s: "fetchStockData h symbol p i a (Responded 200 d) v =
     snd (renderIndicatorChart h d (snd (renderPriceChart h d
       (updateAnalysis h Undefined
         (updateTradingSignals h None
           (updateTechnicalSummary h Undefined
             (updateStockInfo h None
               ((fetchStockData_start symbol p i a v)
                  \<lparr>currentStockData := Some d, statusClass := ''status success'',
                   statusText := StatusSuccess symbol (length pts)\<rparr>))))))))"
    using assms fetchStockData_finish_success [of 200 d pts _ h symbol]
    by (simp add: fetchStockData_def ok_def)
  show "statusText (fetchStockData h symbol p i a (Responded 200 d) v)
           = StatusSuccess symbol (length pts)"
    by (simp add: s renderIndicatorChart_frame renderPriceChart_frame text_panels_frame)
  show "stockInfoBox (fetchStockData h symbol p i a (Responded 200 d) v)
           = LoadingDiv StockInfoUnavailable"
    by (simp add: s renderIndicatorChart_frame renderPriceChart_frame text_panels_written)
       (simp add: updateStockInfo_def)
  show "technicalSummary (fetchStockData h symbol p i a (Responded 200 d) v)
           = Pre (Fixed NoTechnicalData)"
    by (simp add: s renderIndicatorChart_frame renderPriceChart_frame text_panels_written)
  show "tradingSignals (fetchStockData h symbol p i a (Responded 200 d) v)
           = LoadingDiv NoSignals"
    by (simp add: s renderIndicatorChart_frame renderPriceChart_frame text_panels_written)
       (simp add: updateTradingSignals_def)
  show "analysisBox (fetchStockData h symbol p i a (Responded 200 d) v)
           = Pre (Fixed NoAnalysisData)"
    by (simp add: s renderIndicatorChart_frame renderPriceChart_frame text_panels_written)
  have "map_option chart_config (indicatorChart (fetchStockData h symbol p i a (Responded 200 d) v))
        = Some \<lparr>cc_labels = map p_date pts, cc_datasets = [], cc_title = NoText,
                cc_x_title = TimeAxis, cc_y_title = NoText\<rparr>"
    using assms
    by (simp add: s renderIndicatorChart_result [of d pts] renderPriceChart_frame
        text_panels_frame indicator_series_def fetchStockData_start_def)
  then show "map_option (\<lambda>c. cc_datasets (chart_config c))
           (indicatorChart (fetchStockData h symbol p i a (Responded 200 d) v)) = Some []"
    by (auto simp add: map_option_case split: option.splits)
qed

text \<open>
  C5. A successful response in which an optional field is absent is shown with an explicit
  "unavailable" text for that field's panel, and nothing is thrown. The code does not do
  this when \<open>technical_indicators\<close> is absent: \<open>data.technical_indicators.summary\<close> (l.137)
  throws, the \<open>catch\<close> reports a request exception, the three panels after the stock-info
  panel keep their loading placeholders and neither chart is drawn, although the stored
  data was already replaced.
\<close>

theorem C5_missing_technical_indicators_throws:
  "statusText (fetchStockData h symbol p i a
       (Responded 200 (d\<lparr>d_error := Undefined, d_data := Some pts, d_technical_indicators := None\<rparr>)) v)
     = StatusException (typeErrorMessage h ''summary'')
   \<and> technicalSummary (fetchStockData h symbol p i a
       (Responded 200 (d\<lparr>d_error := Undefined, d_data := Some pts, d_technical_indicators := None\<rparr>)) v)
     = LoadingDiv LoadingTechnical
   \<and> tradingSignals (fetchStockData h symbol p i a
       (Responded 200 (d\<lparr>d_error := Undefined, d_data := Some pts, d_technical_indicators := None\<rparr>)) v)
     = LoadingDiv LoadingSignals
   \<and> analysisBox (fetchStockData h symbol p i a
       (Responded 200 (d\<lparr>d_error := Undefined, d_data := Some pts, d_technical_indicators := None\<rparr>)) v)
     = LoadingDiv LoadingAnalysis
   \<and> priceChart (fetchStockData h symbol p i a
       (Responded 200 (d\<lparr>d_error := Undefined, d_data := Some pts, d_technical_indicators := None\<rparr>)) v)
     = priceChart v
   \<and> indicatorChart (fetchStockData h symbol p i a
       (Responded 200 (d\<lparr>d_error := Undefined, d_data := Some pts, d_technical_indicators := None\<rparr>)) v)
     = indicatorChart v
   \<and> currentStockData (fetchStockData h symbol p i a
       (Responded 200 (d\<lparr>d_error := Undefined, d_data := Some pts, d_technical_indicators := None\<rparr>)) v)
     = Some (d\<lparr>d_error := Undefined, d_data := Some pts, d_technical_indicators := None\<rparr>)"
  by (simp add: fetchStockData_def fetchStockData_finish_def fetchStockData_try_def
      fetchStockData_start_def ok_def updateStockInfo_def typeError_def Let_def
      split: option.splits)

section \<open>What the continuation of a fetch writes, outcome by outcome\<close>















section \<open>The empty symbol and the default symbol\<close>

text \<open>
  C8. A submission whose symbol is empty after trimming issues no fetch and changes
  nothing: the state, which includes the list of requests sent, is the one before. This
  holds for the listener of enhanced\_app.js and for the one of app.js.
\<close>

theorem C8_empty_symbol_is_ignored:
  "(trim (symbolInput f) = [] \<longrightarrow> onSubmit f v = v)
   \<and> (trim input = [] \<longrightarrow> app_onSubmit input w = w)"
  by (simp add: onSubmit_def app_onSubmit_def)

text \<open>
  An input of a space, a no-break space, an ideographic space and a tab is empty after
  trimming; an input of only a no-break space also.
\<close>

theorem C8_empty_symbol_witness:
  "trim (symbolInput (example_form [0x20, 0xA0, 0x3000, 0x09])) = []
   \<and> onSubmit (example_form [0x20, 0xA0, 0x3000, 0x09]) initial_view = initial_view
   \<and> trim [0xA0] = []
   \<and> app_onSubmit [0xA0] initial_app_view = initial_app_view"
proof -
  have t: "trim [0xA0] = []" "trim [0x20, 0xA0, 0x3000, 0x09] = []"
    by (simp_all add: trim_def is_space_def)
  then have "trim (symbolInput (example_form [0x20, 0xA0, 0x3000, 0x09])) = []"
    by (simp add: example_form_def)
  with t show ?thesis
    using C8_empty_symbol_is_ignored [where f = "example_form [0x20, 0xA0, 0x3000, 0x09]"
        and v = initial_view and input = "[0xA0]" and w = initial_app_view]
    by simp
qed

text \<open>
  C10. At page load, when the symbol input holds a non-empty value, a query is issued
  without any submission. In enhanced\_app.js its parameters are \<open>1mo\<close>, \<open>1d\<close> and \<open>quick\<close>
  whatever the three selectors show; in app.js the query carries the trimmed symbol.
\<close>

theorem C10_default_symbol_is_queried:
  "(symbolInput f \<noteq> [] \<longrightarrow>
      requests (initializeApp f v)
        = requests v @ [StockDataRequest (trim (symbolInput f)) ''1mo'' ''1d'' ''quick'']
      \<and> initializeApp (f\<lparr>periodSelect := p, intervalSelect := i, analysisSelect := a\<rparr>) v
        = initializeApp f v)
   \<and> (input \<noteq> [] \<longrightarrow>
      a_requests (app_onLoad input w) = a_requests w @ [StockRequest (trim input)])"
  by (simp add: initializeApp_def app_onLoad_def fetchStockData_start_def fetchStock_start_def)

theorem C10_default_symbol_witness:
  "symbolInput (example_form (ascii ''AAPL'')) \<noteq> []
   \<and> requests (initializeApp (example_form (ascii ''AAPL'')) initial_view)
        = [StockDataRequest (ascii ''AAPL'') ''1mo'' ''1d'' ''quick'']
   \<and> initializeApp ((example_form (ascii ''AAPL''))
          \<lparr>periodSelect := ''5y'', intervalSelect := ''1mo'', analysisSelect := ''full''\<rparr>) initial_view
        = initializeApp (example_form (ascii ''AAPL'')) initial_view
   \<and> a_requests (app_onLoad (ascii ''AAPL'') initial_app_view) = [StockRequest (ascii ''AAPL'')]"
proof -
  have t: "trim (ascii ''AAPL'') = ascii ''AAPL''" by (simp add: trim_def is_space_def ascii_def)
  have n: "symbolInput (example_form (ascii ''AAPL'')) \<noteq> []" "ascii ''AAPL'' \<noteq> []"
    by (simp_all add: example_form_def ascii_def)
  have r: "requests initial_view = []" "a_requests initial_app_view = []"
    by (simp_all add: initial_view_def initial_app_view_def)
  show ?thesis
    using C10_default_symbol_is_queried [where f = "example_form (ascii ''AAPL'')"
        and v = initial_view
        and p = "''5y''" and i = "''1mo''" and a = "''full''" and input = "ascii ''AAPL''"
        and w = initial_app_view] n t r
    by (simp add: example_form_def)
qed

section \<open>Selecting an indicator tab\<close>

lemma renderIndicatorChart_fresh:
  assumes "d_data d = Some pts"
  shows "map_option chart_id (indicatorChart (snd (renderIndicatorChart h d v)))
         = Some (nextChartId v)"
  using assms
  by (simp add: renderIndicatorChart_def newChart_def destroy_def Let_def
      split: option.splits prod.splits)

text \<open>
  C7. Selecting an indicator tab changes the active indicator and redraws the indicator
  chart only: the status line, the four text panels, the stored data, the requests sent and
  the price chart (the instance the global holds, and the live instances of its canvas) are
  as before. With data loaded, every selection replaces the indicator chart by a new
  instance, the only live one of its canvas, that shows what the \<open>switch\<close> of
  \<open>renderIndicatorChart\<close> gives for the selected indicator over the loaded records:
  selecting \<open>volume\<close> draws the volume of each record against its date, selecting \<open>rsi\<close>
  draws the RSI series of the loaded data.
\<close>

theorem C7_tab_click_redraws_indicator_only:
  "currentIndicator (snd (onTabClick h ind v)) = ind
   \<and> activeTab (snd (onTabClick h ind v)) = Some ind
   \<and> statusClass (snd (onTabClick h ind v)) = statusClass v
   \<and> statusText (snd (onTabClick h ind v)) = statusText v
   \<and> stockInfoBox (snd (onTabClick h ind v)) = stockInfoBox v
   \<and> technicalSummary (snd (onTabClick h ind v)) = technicalSummary v
   \<and> tradingSignals (snd (onTabClick h ind v)) = tradingSignals v
   \<and> analysisBox (snd (onTabClick h ind v)) = analysisBox v
   \<and> currentStockData (snd (onTabClick h ind v)) = currentStockData v
   \<and> requests (snd (onTabClick h ind v)) = requests v
   \<and> priceChart (snd (onTabClick h ind v)) = priceChart v
   \<and> (charts_owned v \<and> currentStockData v = Some d \<and> d_data d = Some pts \<longrightarrow>
        live_on ''priceChart'' (snd (onTabClick h ind v)) = live_on ''priceChart'' v
        \<and> length (live_on ''indicatorChart'' (snd (onTabClick h ind v))) = 1
        \<and> fst (onTabClick h ind v) = None
        \<and> map_option chart_id (indicatorChart (snd (onTabClick h ind v))) = Some (nextChartId v)
        \<and> map_option chart_config (indicatorChart (snd (onTabClick h ind v)))
            = (case indicator_series h ind d pts (randomCalls v) of
                 (ds, title, yAxisTitle, k) \<Rightarrow>
                   Some \<lparr>cc_labels = map p_date pts, cc_datasets = ds, cc_title = title,
                          cc_x_title = TimeAxis, cc_y_title = yAxisTitle\<rparr>)
        \<and> (ind = ''rsi'' \<and> d_rsi d = Some rs \<and> rs \<noteq> [] \<longrightarrow>
             map_option (\<lambda>c. (cc_labels (chart_config c), cc_title (chart_config c),
                               map ds_data (cc_datasets (chart_config c))))
               (indicatorChart (snd (onTabClick h ind v)))
             = Some (map p_date pts, RsiTitle, [rs]))
        \<and> (ind = ''volume'' \<longrightarrow>
             map_option (\<lambda>c. (cc_labels (chart_config c), map ds_data (cc_datasets (chart_config c))))
               (indicatorChart (snd (onTabClick h ind v)))
             = Some (map p_date pts, [map p_volume pts])))"
proof -
  let ?v1 = "v\<lparr>activeTab := Some ind, currentIndicator := ind\<rparr>"
  have frame: "currentIndicator (snd (onTabClick h ind v)) = ind
   \<and> activeTab (snd (onTabClick h ind v)) = Some ind
   \<and> statusClass (snd (onTabClick h ind v)) = statusClass v
   \<and> statusText (snd (onTabClick h ind v)) = statusText v
   \<and> stockInfoBox (snd (onTabClick h ind v)) = stockInfoBox v
   \<and> technicalSummary (snd (onTabClick h ind v)) = technicalSummary v
   \<and> tradingSignals (snd (onTabClick h ind v)) = tradingSignals v
   \<and> analysisBox (snd (onTabClick h ind v)) = analysisBox v
   \<and> currentStockData (snd (onTabClick h ind v)) = currentStockData v
   \<and> requests (snd (onTabClick h ind v)) = requests v
   \<and> priceChart (snd (onTabClick h ind v)) = priceChart v"
    by (cases "currentStockData v")
       (simp_all add: onTabClick_def renderIndicatorChart_frame)
  have loaded: "live_on ''priceChart'' (snd (onTabClick h ind v)) = live_on ''priceChart'' v
        \<and> length (live_on ''indicatorChart'' (snd (onTabClick h ind v))) = 1
        \<and> fst (onTabClick h ind v) = None
        \<and> map_option chart_id (indicatorChart (snd (onTabClick h ind v))) = Some (nextChartId v)
        \<and> map_option chart_config (indicatorChart (snd (onTabClick h ind v)))
            = (case indicator_series h ind d pts (randomCalls v) of
                 (ds, title, yAxisTitle, k) \<Rightarrow>
                   Some \<lparr>cc_labels = map p_date pts, cc_datasets = ds, cc_title = title,
                          cc_x_title = TimeAxis, cc_y_title = yAxisTitle\<rparr>)
        \<and> (ind = ''rsi'' \<and> d_rsi d = Some rs \<and> rs \<noteq> [] \<longrightarrow>
             map_option (\<lambda>c. (cc_labels (chart_config c), cc_title (chart_config c),
                               map ds_data (cc_datasets (chart_config c))))
               (indicatorChart (snd (onTabClick h ind v)))
             = Some (map p_date pts, RsiTitle, [rs]))
        \<and> (ind = ''volume'' \<longrightarrow>
             map_option (\<lambda>c. (cc_labels (chart_config c), map ds_data (cc_datasets (chart_config c))))
               (indicatorChart (snd (onTabClick h ind v)))
             = Some (map p_date pts, [map p_volume pts]))"
    if a: "charts_owned v" "currentStockData v = Some d" "d_data d = Some pts"
  proof -
    have click: "onTabClick h ind v = renderIndicatorChart h d ?v1"
      using a(2) by (simp add: onTabClick_def)
    have own: "charts_owned ?v1" using a(1) by (simp add: charts_owned_def live_on_def)
    have lp: "live_on ''priceChart'' ?v1 = live_on ''priceChart'' v" by (simp add: live_on_def)
    note o = renderIndicatorChart_owned [OF own a(3), of h]
    note r = renderIndicatorChart_result [OF a(3), of h ?v1]
    note f = renderIndicatorChart_fresh [OF a(3), of h ?v1]
    have 1: "live_on ''priceChart'' (snd (onTabClick h ind v)) = live_on ''priceChart'' v"
      using o lp by (simp add: click)
    have 2: "length (live_on ''indicatorChart'' (snd (onTabClick h ind v))) = 1"
      using o by (simp add: click)
    have 3: "fst (onTabClick h ind v) = None"
      using r(1) by (simp add: click)
    have 4: "map_option chart_id (indicatorChart (snd (onTabClick h ind v))) = Some (nextChartId v)"
      using f by (simp add: click)
    have 5: "map_option chart_config (indicatorChart (snd (onTabClick h ind v)))
            = (case indicator_series h ind d pts (randomCalls v) of
                 (ds, title, yAxisTitle, k) \<Rightarrow>
                   Some \<lparr>cc_labels = map p_date pts, cc_datasets = ds, cc_title = title,
                          cc_x_title = TimeAxis, cc_y_title = yAxisTitle\<rparr>)"
      using r(2) by (simp add: click)
    have 6: "map_option (\<lambda>c. (cc_labels (chart_config c), cc_title (chart_config c),
                               map ds_data (cc_datasets (chart_config c))))
               (indicatorChart (snd (onTabClick h ind v)))
             = Some (map p_date pts, RsiTitle, [rs])"
      if "ind = ''rsi'' \<and> d_rsi d = Some rs \<and> rs \<noteq> []"
    proof -
      from 5 that have "map_option chart_config (indicatorChart (snd (onTabClick h ind v)))
        = Some \<lparr>cc_labels = map p_date pts,
                cc_datasets = [\<lparr>ds_label = RsiLabel, ds_data = rs,
                   ds_borderColor = ''#ff6b6b'', ds_backgroundColor = ''rgba(255, 107, 107, 0.1)'',
                   ds_borderWidth = 2, ds_fill = False, ds_tension = None\<rparr>],
                cc_title = RsiTitle, cc_x_title = TimeAxis, cc_y_title = RsiLabel\<rparr>"
        by (simp add: indicator_series_def)
      then show ?thesis by (auto simp add: map_option_case split: option.splits)
    qed
    have 7: "map_option (\<lambda>c. (cc_labels (chart_config c), map ds_data (cc_datasets (chart_config c))))
               (indicatorChart (snd (onTabClick h ind v)))
             = Some (map p_date pts, [map p_volume pts])" if "ind = ''volume''"
    proof -
      from 5 that have "map_option chart_config (indicatorChart (snd (onTabClick h ind v)))
        = Some \<lparr>cc_labels = map p_date pts,
                cc_datasets = [\<lparr>ds_label = VolumeText, ds_data = map p_volume pts,
                   ds_borderColor = ''#45b7d1'', ds_backgroundColor = ''rgba(69, 183, 209, 0.3)'',
                   ds_borderWidth = 1, ds_fill = True, ds_tension = None\<rparr>],
                cc_title = VolumeText, cc_x_title = TimeAxis, cc_y_title = VolumeText\<rparr>"
        by (simp add: indicator_series_def)
      then show ?thesis by (auto simp add: map_option_case split: option.splits)
    qed
    from 1 2 3 4 5 6 7 show ?thesis by blast
  qed
  from frame loaded show ?thesis by blast
qed

text \<open>
  After AAPL was loaded on the fresh page (charts 0 and 1), selecting \<open>volume\<close> and then
  \<open>rsi\<close> draws chart 2 with the volume and chart 3 with the RSI series; the price chart
  stays chart 0.
\<close>

theorem C7_tab_click_witness:
  "charts_owned (fetchStockData_finish example_host (ascii ''AAPL'')
       (Responded 200 (example_data ''AAPL'' 185)) initial_view)
   \<and> currentStockData (fetchStockData_finish example_host (ascii ''AAPL'')
       (Responded 200 (example_data ''AAPL'' 185)) initial_view)
      = Some (example_data ''AAPL'' 185)
   \<and> d_data (example_data ''AAPL'' 185)
      = Some [\<lparr>p_date = Str ''2024-01-02'', p_close = Num 185, p_volume = Num 1000\<rparr>]
   \<and> map_option (\<lambda>c. (cc_labels (chart_config c), map ds_data (cc_datasets (chart_config c))))
        (indicatorChart (snd (onTabClick example_host ''volume''
           (fetchStockData_finish example_host (ascii ''AAPL'')
              (Responded 200 (example_data ''AAPL'' 185)) initial_view))))
      = Some ([Str ''2024-01-02''], [[Num 1000]])
   \<and> priceChart (snd (onTabClick example_host ''volume''
           (fetchStockData_finish example_host (ascii ''AAPL'')
              (Responded 200 (example_data ''AAPL'' 185)) initial_view)))
      = priceChart (fetchStockData_finish example_host (ascii ''AAPL'')
           (Responded 200 (example_data ''AAPL'' 185)) initial_view)
   \<and> d_rsi (example_data ''AAPL'' 185) = Some [Num 55]
   \<and> map_option (\<lambda>c. (cc_labels (chart_config c), cc_title (chart_config c),
                       map ds_data (cc_datasets (chart_config c))))
        (indicatorChart (snd (onTabClick example_host ''rsi''
           (fetchStockData_finish example_host (ascii ''AAPL'')
              (Responded 200 (example_data ''AAPL'' 185)) initial_view))))
      = Some ([Str ''2024-01-02''], RsiTitle, [[Num 55]])"
proof -
  let ?d = "example_data ''AAPL'' 185"
  let ?pts = "[\<lparr>p_date = Str ''2024-01-02'', p_close = Num 185, p_volume = Num 1000\<rparr>]"
  let ?v = "fetchStockData_finish example_host (ascii ''AAPL'') (Responded 200 ?d) initial_view"
  have dd: "d_data ?d = Some ?pts" "d_rsi ?d = Some [Num 55]" by (simp_all add: example_data_def)
  have fin: "?v = snd (renderIndicatorChart example_host ?d (snd (renderPriceChart example_host ?d
       (updateAnalysis example_host (d_analysis ?d)
         (updateTradingSignals example_host (Some example_signals)
           (updateTechnicalSummary example_host (Str ''RSI 55'')
             (updateStockInfo example_host (d_stock_info ?d)
               (initial_view\<lparr>currentStockData := Some ?d, statusClass := ''status success'',
                  statusText := StatusSuccess (ascii ''AAPL'') (length ?pts)\<rparr>))))))))"
    by (rule trans [OF fetchStockData_finish_success [of 200 ?d ?pts
            "\<lparr>ti_summary = Str ''RSI 55'', ti_signals = Some example_signals\<rparr>"]])
       (simp_all add: ok_def example_data_def)
  have own0: "charts_owned (updateAnalysis example_host (d_analysis ?d)
         (updateTradingSignals example_host (Some example_signals)
           (updateTechnicalSummary example_host (Str ''RSI 55'')
             (updateStockInfo example_host (d_stock_info ?d)
               (initial_view\<lparr>currentStockData := Some ?d, statusClass := ''status success'',
                  statusText := StatusSuccess (ascii ''AAPL'') (length ?pts)\<rparr>)))))"
    by (simp add: charts_owned_def live_on_def initial_view_def updateAnalysis_def
        updateTradingSignals_def updateTechnicalSummary_def updateStockInfo_def example_signals_def
        split: option.splits)
  have own: "charts_owned ?v"
    unfolding fin
    using renderIndicatorChart_owned [OF conjunct1 [OF renderPriceChart_owned [OF own0 dd(1)]] dd(1)]
    by simp
  have cur: "currentStockData ?v = Some ?d"
    unfolding fin
    by (simp add: renderIndicatorChart_frame renderPriceChart_frame text_panels_frame)
  have vol: "map_option (\<lambda>c. (cc_labels (chart_config c), map ds_data (cc_datasets (chart_config c))))
        (indicatorChart (snd (onTabClick example_host ''volume'' ?v)))
      = Some ([Str ''2024-01-02''], [[Num 1000]])"
    and pc: "priceChart (snd (onTabClick example_host ''volume'' ?v)) = priceChart ?v"
    using C7_tab_click_redraws_indicator_only [where h = example_host and ind = "''volume''"
        and v = ?v and d = ?d and pts = ?pts and rs = "[Num 55]"] own cur dd
    by simp_all
  have rsi: "map_option (\<lambda>c. (cc_labels (chart_config c), cc_title (chart_config c),
                       map ds_data (cc_datasets (chart_config c))))
        (indicatorChart (snd (onTabClick example_host ''rsi'' ?v)))
      = Some ([Str ''2024-01-02''], RsiTitle, [[Num 55]])"
    using C7_tab_click_redraws_indicator_only [where h = example_host and ind = "''rsi''"
        and v = ?v and d = ?d and pts = ?pts and rs = "[Num 55]"] own cur dd
    by simp
  from own cur dd vol pc rsi show ?thesis by simp
qed

section \<open>Failed responses\<close>




section \<open>Responses that arrive out of order\<close>




end
